theory Spec2Isabelle
  imports Complex_Main "HOL-Library.Char_ord" "HOL-Library.List_Lexorder"
begin

section \<open>Python values and builtins used by the pipeline\<close>

text \<open>
  A cell of the input table, a keyword argument of the call of \<^verbatim>\<open>VehicleRecord\<close>: Python's
  \<^verbatim>\<open>None\<close>, a \<^verbatim>\<open>str\<close>, an \<^verbatim>\<open>int\<close>, a \<^verbatim>\<open>float\<close>, or an object of another type
  (which carries the text \<^verbatim>\<open>str()\<close> gives for it). A finite float is represented by the
  rational number it denotes; the rounding of double arithmetic is written out only where
  the code converts an \<^verbatim>\<open>int\<close> to a \<^verbatim>\<open>float\<close>. Strings are ASCII texts.
\<close>

datatype pyfloat = Finite rat | PosInf | NegInf | NaN

datatype pyval = VNone | VStr string | VInt int | VFloat pyfloat | VObj string

text \<open>One entry of a pydantic \<^verbatim>\<open>ValidationError\<close>: the field it names and the error type.\<close>

datatype err_kind =
    Missing | StringType | IntType | IntParsing | IntFromFloat | FiniteNumber
  | GreaterThanEqual | LessThanEqual

type_synonym field_error = "string \<times> err_kind"

datatype py_exception =
    ValueError | TypeError | OverflowError | ZeroDivisionError
  | ValidationError "field_error list"

text \<open>
  The library functions the source calls on strings and floats whose text formats are
  not part of this repository: Python's \<^verbatim>\<open>float(s)\<close> on a string (\<open>None\<close> when
  it raises \<^verbatim>\<open>ValueError\<close>), pydantic's lax conversion of a string to an \<^verbatim>\<open>int\<close>
  (\<open>None\<close> when it reports \<^verbatim>\<open>int_parsing\<close>), and \<^verbatim>\<open>str(x)\<close> on a finite float.
\<close>

record pylib =
  float_of_str :: "string \<Rightarrow> pyfloat option"
  int_of_str :: "string \<Rightarrow> int option"
  str_of_float :: "rat \<Rightarrow> string"

subsection \<open>\<^verbatim>\<open>str.strip\<close>, \<^verbatim>\<open>str.upper\<close>, \<^verbatim>\<open>in\<close>\<close>

definition is_space :: "char \<Rightarrow> bool" where
  "is_space c = (c \<in> set [CHR '' '', CHR 0x09, CHR 0x0A, CHR 0x0B, CHR 0x0C, CHR 0x0D,
                           CHR 0x1C, CHR 0x1D, CHR 0x1E, CHR 0x1F])"

definition strip :: "string \<Rightarrow> string" where
  "strip s = rev (dropWhile is_space (rev (dropWhile is_space s)))"

definition to_upper :: "char \<Rightarrow> char" where
  "to_upper c =
     (case map_of (zip ''abcdefghijklmnopqrstuvwxyz'' ''ABCDEFGHIJKLMNOPQRSTUVWXYZ'') c of
        Some u \<Rightarrow> u
      | None \<Rightarrow> c)"

definition upper :: "string \<Rightarrow> string" where
  "upper s = map to_upper s"

definition starts_with :: "string \<Rightarrow> string \<Rightarrow> bool" where
  "starts_with sub s = (take (length sub) s = sub)"

text \<open>\<^verbatim>\<open>sub in s\<close> on strings.\<close>

fun contains :: "string \<Rightarrow> string \<Rightarrow> bool" where
  "contains sub [] = (sub = [])"
| "contains sub (c # cs) = (starts_with sub (c # cs) \<or> contains sub cs)"

subsection \<open>\<^verbatim>\<open>float(v)\<close> and \<^verbatim>\<open>int(x)\<close>\<close>

function bitlen :: "int \<Rightarrow> nat" where
  "bitlen n = (if n \<le> 0 then 0 else Suc (bitlen (n div 2)))"
  by pat_completeness auto
termination
  by (relation "measure nat") auto

declare bitlen.simps [simp del]

text \<open>The magnitude of an integer rounded to 53 significant bits, ties to even.\<close>

definition round_to_double :: "int \<Rightarrow> int" where
  "round_to_double a =
     (if a < 2 ^ 53 then a
      else let e = bitlen a - 53; q = a div 2 ^ e; r = a mod 2 ^ e; h = 2 ^ (e - 1)
           in (if h < r \<or> (r = h \<and> odd q) then q + 1 else q) * 2 ^ e)"

text \<open>\<^verbatim>\<open>float(i)\<close> on an \<^verbatim>\<open>int\<close>: \<^verbatim>\<open>OverflowError\<close> beyond the range of a double.\<close>

definition float_of_int :: "int \<Rightarrow> py_exception + pyfloat" where
  "float_of_int i =
     (let m = round_to_double \<bar>i\<bar>
      in if 2 ^ 1024 \<le> m then Inl OverflowError
         else Inr (Finite (of_int (sgn i * m))))"

definition py_float :: "pylib \<Rightarrow> pyval \<Rightarrow> py_exception + pyfloat" where
  "py_float L v =
     (case v of
        VNone \<Rightarrow> Inl TypeError
      | VStr s \<Rightarrow> (case float_of_str L s of None \<Rightarrow> Inl ValueError | Some f \<Rightarrow> Inr f)
      | VInt i \<Rightarrow> float_of_int i
      | VFloat f \<Rightarrow> Inr f
      | VObj _ \<Rightarrow> Inl TypeError)"

text \<open>Truncation toward zero.\<close>

definition trunc :: "rat \<Rightarrow> int" where
  "trunc q = (if 0 \<le> q then \<lfloor>q\<rfloor> else \<lceil>q\<rceil>)"

definition py_int :: "pyfloat \<Rightarrow> py_exception + int" where
  "py_int f =
     (case f of
        Finite q \<Rightarrow> Inr (trunc q)
      | NaN \<Rightarrow> Inl ValueError
      | PosInf \<Rightarrow> Inl OverflowError
      | NegInf \<Rightarrow> Inl OverflowError)"

section \<open>The validator: \<^verbatim>\<open>app/schemas/validation.py\<close>\<close>

text \<open>The typed record (the field make is \<open>make_v\<close> here).\<close>

record vehicle =
  vin_1_10 :: string
  county :: string
  city :: string
  state :: string
  postal_code :: "string option"
  model_year :: int
  make_v :: string
  model :: string
  electric_vehicle_type :: string
  cafv_eligibility :: string
  electric_range :: int
  base_msrp :: int
  legislative_district :: "string option"
  dol_vehicle_id :: string
  vehicle_location :: "string option"
  electric_utility :: "string option"
  census_tract_2020 :: "string option"

text \<open>\<^verbatim>\<open>normalize_strings\<close>, the \<^verbatim>\<open>mode='before'\<close> validator of make, model,
  electric_vehicle_type, county and city.\<close>

definition normalize_strings :: "pyval \<Rightarrow> pyval" where
  "normalize_strings v = (case v of VStr s \<Rightarrow> VStr (upper (strip s)) | _ \<Rightarrow> v)"

definition BEV_LABEL :: string where
  "BEV_LABEL = ''BATTERY ELECTRIC VEHICLE (BEV)''"

definition PHEV_LABEL :: string where
  "PHEV_LABEL = ''PLUG-IN HYBRID ELECTRIC VEHICLE (PHEV)''"

definition valid_types :: "string list" where
  "valid_types = [BEV_LABEL, PHEV_LABEL, ''BEV'', ''PHEV'']"

text \<open>\<^verbatim>\<open>validate_ev_type\<close>, the \<^verbatim>\<open>mode='after'\<close> validator of electric_vehicle_type.\<close>

definition validate_ev_type :: "string \<Rightarrow> string" where
  "validate_ev_type v =
     (if v \<notin> set valid_types then
        (if contains ''BEV'' (upper v) then BEV_LABEL
         else if contains ''PHEV'' (upper v) then PHEV_LABEL
         else v)
      else v)"

text \<open>
  \<^verbatim>\<open>handle_numeric_na\<close>, the \<^verbatim>\<open>mode='before'\<close> validator of electric_range and base_msrp.
  The \<^verbatim>\<open>except (ValueError, TypeError)\<close> clause does not catch \<^verbatim>\<open>OverflowError\<close>.
\<close>

definition catch_value_type :: "py_exception + int \<Rightarrow> py_exception + int" where
  "catch_value_type r =
     (case r of
        Inl e \<Rightarrow> (if e = ValueError \<or> e = TypeError then Inr 0 else Inl e)
      | Inr n \<Rightarrow> Inr n)"

definition handle_numeric_na :: "pylib \<Rightarrow> pyval \<Rightarrow> py_exception + int" where
  "handle_numeric_na L v =
     (if v \<in> set [VStr '''', VStr ''NA'', VStr ''N/A'', VNone] then Inr 0
      else catch_value_type
             (case py_float L v of Inl e \<Rightarrow> Inl e | Inr f \<Rightarrow> py_int f))"

subsection \<open>Field schemas\<close>

text \<open>
  Each field function takes the keyword argument (\<open>None\<close> when the key is absent) and
  returns the field's value or the error type pydantic reports for it. Validators of a
  field run only when the key is present.
\<close>

text \<open>\<^verbatim>\<open>str = Field(...)\<close>\<close>

definition str_field :: "pyval option \<Rightarrow> err_kind + string" where
  "str_field a =
     (case a of
        None \<Rightarrow> Inl Missing
      | Some (VStr s) \<Rightarrow> Inr s
      | Some _ \<Rightarrow> Inl StringType)"

text \<open>\<^verbatim>\<open>str = Field(default="WA")\<close>\<close>

definition state_field :: "pyval option \<Rightarrow> err_kind + string" where
  "state_field a = (case a of None \<Rightarrow> Inr ''WA'' | Some _ \<Rightarrow> str_field a)"

text \<open>\<^verbatim>\<open>Optional[str] = Field(None)\<close>\<close>

definition opt_str_field :: "pyval option \<Rightarrow> err_kind + string option" where
  "opt_str_field a =
     (case a of
        None \<Rightarrow> Inr None
      | Some VNone \<Rightarrow> Inr None
      | Some (VStr s) \<Rightarrow> Inr (Some s)
      | Some _ \<Rightarrow> Inl StringType)"

text \<open>The five fields with the \<^verbatim>\<open>normalize_strings\<close> hook.\<close>

definition norm_str_field :: "pyval option \<Rightarrow> err_kind + string" where
  "norm_str_field a = str_field (map_option normalize_strings a)"

definition ev_type_field :: "pyval option \<Rightarrow> err_kind + string" where
  "ev_type_field a =
     (case norm_str_field a of Inl e \<Rightarrow> Inl e | Inr s \<Rightarrow> Inr (validate_ev_type s))"

text \<open>\<^verbatim>\<open>model_year: int = Field(..., ge=1997, le=2026)\<close>\<close>

definition year_bounds :: "int \<Rightarrow> err_kind + int" where
  "year_bounds i =
     (if i < 1997 then Inl GreaterThanEqual
      else if 2026 < i then Inl LessThanEqual
      else Inr i)"

definition model_year_field :: "pylib \<Rightarrow> pyval option \<Rightarrow> err_kind + int" where
  "model_year_field L a =
     (case a of
        None \<Rightarrow> Inl Missing
      | Some (VInt i) \<Rightarrow> year_bounds i
      | Some (VFloat (Finite q)) \<Rightarrow>
          (if of_int \<lfloor>q\<rfloor> = q then year_bounds \<lfloor>q\<rfloor> else Inl IntFromFloat)
      | Some (VFloat _) \<Rightarrow> Inl FiniteNumber
      | Some (VStr s) \<Rightarrow>
          (case int_of_str L s of None \<Rightarrow> Inl IntParsing | Some i \<Rightarrow> year_bounds i)
      | Some _ \<Rightarrow> Inl IntType)"

text \<open>\<^verbatim>\<open>int = Field(default=0, ge=0)\<close> behind \<^verbatim>\<open>handle_numeric_na\<close>: an exception of
  the hook that is no \<^verbatim>\<open>ValueError\<close> leaves the validation as it is.\<close>

definition numeric_field :: "pylib \<Rightarrow> pyval option \<Rightarrow> py_exception + (err_kind + int)" where
  "numeric_field L a =
     (case a of
        None \<Rightarrow> Inr (Inr 0)
      | Some v \<Rightarrow>
          (case handle_numeric_na L v of
             Inl e \<Rightarrow> Inl e
           | Inr n \<Rightarrow> Inr (if n < 0 then Inl GreaterThanEqual else Inr n)))"

definition errors_of :: "string \<Rightarrow> err_kind + 'a \<Rightarrow> field_error list" where
  "errors_of name r = (case r of Inl k \<Rightarrow> [(name, k)] | Inr _ \<Rightarrow> [])"

subsection \<open>The model class\<close>

text \<open>
  The call of \<^verbatim>\<open>VehicleRecord\<close> on the keyword arguments \<^verbatim>\<open>kw\<close>: the fields are validated in the order of their declaration and
  their errors collected into one \<^verbatim>\<open>ValidationError\<close>; an exception of another type
  raised by a hook ends the validation at once, whatever errors were collected before
  (only the two numeric fields have such a hook, so they are looked at first here).
\<close>

definition VehicleRecord :: "pylib \<Rightarrow> (string \<rightharpoonup> pyval) \<Rightarrow> py_exception + vehicle" where
  "VehicleRecord L kw =
     (case numeric_field L (kw ''electric_range'') of
        Inl e \<Rightarrow> Inl e
      | Inr rng \<Rightarrow>
     (case numeric_field L (kw ''base_msrp'') of
        Inl e \<Rightarrow> Inl e
      | Inr msrp \<Rightarrow>
     (let vin = str_field (kw ''vin_1_10'');
          cnty = norm_str_field (kw ''county'');
          cty = norm_str_field (kw ''city'');
          st = state_field (kw ''state'');
          pc = opt_str_field (kw ''postal_code'');
          yr = model_year_field L (kw ''model_year'');
          mk = norm_str_field (kw ''make'');
          mdl = norm_str_field (kw ''model'');
          evt = ev_type_field (kw ''electric_vehicle_type'');
          cafv = str_field (kw ''cafv_eligibility'');
          ld = opt_str_field (kw ''legislative_district'');
          dol = str_field (kw ''dol_vehicle_id'');
          vl = opt_str_field (kw ''vehicle_location'');
          eu = opt_str_field (kw ''electric_utility'');
          ct = opt_str_field (kw ''census_tract_2020'');
          errs = errors_of ''vin_1_10'' vin @ errors_of ''county'' cnty
               @ errors_of ''city'' cty @ errors_of ''state'' st
               @ errors_of ''postal_code'' pc @ errors_of ''model_year'' yr
               @ errors_of ''make'' mk @ errors_of ''model'' mdl
               @ errors_of ''electric_vehicle_type'' evt
               @ errors_of ''cafv_eligibility'' cafv
               @ errors_of ''electric_range'' rng @ errors_of ''base_msrp'' msrp
               @ errors_of ''legislative_district'' ld
               @ errors_of ''dol_vehicle_id'' dol
               @ errors_of ''vehicle_location'' vl
               @ errors_of ''electric_utility'' eu
               @ errors_of ''census_tract_2020'' ct
      in if errs = [] then
           Inr \<lparr>vin_1_10 = projr vin, county = projr cnty, city = projr cty,
                state = projr st, postal_code = projr pc, model_year = projr yr,
                make_v = projr mk, model = projr mdl, electric_vehicle_type = projr evt,
                cafv_eligibility = projr cafv, electric_range = projr rng,
                base_msrp = projr msrp, legislative_district = projr ld,
                dol_vehicle_id = projr dol, vehicle_location = projr vl,
                electric_utility = projr eu, census_tract_2020 = projr ct\<rparr>
         else Inl (ValidationError errs))))"


subsection \<open>\<^verbatim>\<open>str(i)\<close> on an \<^verbatim>\<open>int\<close>\<close>

definition digit_char :: "int \<Rightarrow> char" where
  "digit_char d = ''0123456789'' ! nat d"

text \<open>The decimal digits of a natural number, given as an integer.\<close>

function show_nat :: "int \<Rightarrow> string" where
  "show_nat n =
     (if n < 10 then [digit_char n] else show_nat (n div 10) @ [digit_char (n mod 10)])"
  by pat_completeness auto
termination
  by (relation "measure nat") auto

declare show_nat.simps [simp del]

definition show_int :: "int \<Rightarrow> string" where
  "show_int i = (if i < 0 then CHR ''-'' # show_nat (- i) else show_nat i)"

section \<open>A library instance for running examples\<close>

text \<open>
  The examples below need one concrete library. This one knows plain digit strings only:
  on these it agrees with \<^verbatim>\<open>float\<close> and with pydantic's conversion to \<^verbatim>\<open>int\<close>, and
  it prints a float of integral value as Python does below \<open>10\<^sup>1\<^sup>6\<close>. The examples use it
  on such inputs and on texts that are no numbers in any syntax; the theorems hold for
  every library.
\<close>

definition digit_val :: "char \<Rightarrow> int option" where
  "digit_val c = map_of (zip ''0123456789'' [0, 1, 2, 3, 4, 5, 6, 7, 8, 9]) c"

fun int_of_digits_acc :: "int \<Rightarrow> string \<Rightarrow> int option" where
  "int_of_digits_acc n [] = Some n"
| "int_of_digits_acc n (c # cs) =
     (case digit_val c of None \<Rightarrow> None | Some d \<Rightarrow> int_of_digits_acc (10 * n + d) cs)"

definition int_of_digits :: "string \<Rightarrow> int option" where
  "int_of_digits s = (if s = [] then None else int_of_digits_acc 0 s)"

definition sample_lib :: pylib where
  "sample_lib =
     \<lparr>float_of_str =
        (\<lambda>s. map_option (\<lambda>n. Finite (of_int (round_to_double n))) (int_of_digits s)),
      int_of_str = int_of_digits,
      str_of_float = (\<lambda>q. show_int \<lfloor>q\<rfloor> @ ''.0'')\<rparr>"

definition example_record :: "(string \<times> pyval) list" where
  "example_record =
     [(''vin_1_10'', VStr ''5YJSA1E26K''), (''county'', VStr ''King''),
      (''city'', VStr ''Seattle''), (''state'', VStr ''WA''),
      (''postal_code'', VStr ''98101''), (''model_year'', VInt 2023),
      (''make'', VStr ''TESLA''), (''model'', VStr ''MODEL S''),
      (''electric_vehicle_type'', VStr ''Battery Electric Vehicle (BEV)''),
      (''cafv_eligibility'', VStr ''Eligible''), (''electric_range'', VInt 405),
      (''base_msrp'', VInt 0), (''legislative_district'', VStr ''43''),
      (''dol_vehicle_id'', VStr ''12345''), (''vehicle_location'', VNone),
      (''electric_utility'', VNone), (''census_tract_2020'', VNone)]"

text \<open>The example record with a negative electric range.\<close>

definition negative_range_record :: "string \<rightharpoonup> pyval" where
  "negative_range_record = (map_of example_record)(''electric_range'' \<mapsto> VInt (- 5))"




definition old_hybrid_record :: "string \<rightharpoonup> pyval" where
  "old_hybrid_record =
     (map_of example_record)(''model_year'' \<mapsto> VInt 1990,
        ''electric_vehicle_type'' \<mapsto> VStr '' plug-in hybrid (phev) '')"

section \<open>The pipeline: \<^verbatim>\<open>app/pipeline/etl.py\<close>\<close>

text \<open>
  A row of the data frame: its cells with their column names, in column order; a data
  frame is the list of its rows, which all have the same columns. The pandas operations
  below act on every cell of a column alike, so they are written on one row.
\<close>

type_synonym row = "(string \<times> pyval) list"

type_synonym dataframe = "row list"

subsection \<open>\<^verbatim>\<open>normalize_column_names\<close>\<close>

definition column_mapping :: "(string \<times> string) list" where
  "column_mapping =
     [(''VIN (1-10)'', ''vin_1_10''),
      (''County'', ''county''),
      (''City'', ''city''),
      (''State'', ''state''),
      (''Postal Code'', ''postal_code''),
      (''Model Year'', ''model_year''),
      (''Make'', ''make''),
      (''Model'', ''model''),
      (''Electric Vehicle Type'', ''electric_vehicle_type''),
      (''Clean Alternative Fuel Vehicle (CAFV) Eligibility'', ''cafv_eligibility''),
      (''Electric Range'', ''electric_range''),
      (''Base MSRP'', ''base_msrp''),
      (''Legislative District'', ''legislative_district''),
      (''DOL Vehicle ID'', ''dol_vehicle_id''),
      (''Vehicle Location'', ''vehicle_location''),
      (''Electric Utility'', ''electric_utility''),
      (''2020 Census Tract'', ''census_tract_2020'')]"

text \<open>\<^verbatim>\<open>df.rename(columns=column_mapping)\<close>: a column that is no key of the mapping keeps
  its name.\<close>

definition rename_column :: "string \<Rightarrow> string" where
  "rename_column c = (case map_of column_mapping c of Some n \<Rightarrow> n | None \<Rightarrow> c)"

definition normalize_column_names :: "row \<Rightarrow> row" where
  "normalize_column_names r = map (\<lambda>(c, v). (rename_column c, v)) r"

subsection \<open>\<^verbatim>\<open>analyze_missing_values\<close>\<close>

text \<open>\<^verbatim>\<open>isnull\<close>: \<^verbatim>\<open>None\<close> and NaN.\<close>

definition isnull :: "pyval \<Rightarrow> bool" where
  "isnull v = (v = VNone \<or> v = VFloat NaN)"

definition null_count :: "dataframe \<Rightarrow> string \<Rightarrow> nat" where
  "null_count df c =
     length (filter (\<lambda>r. case map_of r c of Some v \<Rightarrow> isnull v | None \<Rightarrow> False) df)"

definition analyze_missing_values :: "dataframe \<Rightarrow> (string \<times> nat) list" where
  "analyze_missing_values df =
     (case df of
        [] \<Rightarrow> []
      | r # _ \<Rightarrow> filter (\<lambda>(c, n). 0 < n) (map (\<lambda>c. (c, null_count df c)) (map fst r)))"

subsection \<open>The steps of \<^verbatim>\<open>transform\<close> on the frame\<close>

text \<open>\<^verbatim>\<open>df.fillna({...})\<close>\<close>

definition fill_values :: "(string \<times> pyval) list" where
  "fill_values =
     [(''postal_code'', VStr ''''),
      (''legislative_district'', VStr ''''),
      (''vehicle_location'', VStr ''''),
      (''electric_utility'', VStr ''''),
      (''census_tract_2020'', VStr ''''),
      (''electric_range'', VInt 0),
      (''base_msrp'', VInt 0)]"

definition fillna :: "row \<Rightarrow> row" where
  "fillna r =
     map (\<lambda>(c, v). (c, if isnull v then (case map_of fill_values c of Some d \<Rightarrow> d | None \<Rightarrow> v)
                         else v)) r"

definition string_fields :: "string list" where
  "string_fields = [''postal_code'', ''legislative_district'', ''dol_vehicle_id'',
                    ''census_tract_2020'']"

text \<open>\<^verbatim>\<open>astype(str)\<close> on one cell: \<^verbatim>\<open>str(v)\<close>.\<close>

definition astype_str :: "pylib \<Rightarrow> pyval \<Rightarrow> string" where
  "astype_str L v =
     (case v of
        VNone \<Rightarrow> ''None''
      | VStr s \<Rightarrow> s
      | VInt i \<Rightarrow> show_int i
      | VFloat (Finite q) \<Rightarrow> str_of_float L q
      | VFloat PosInf \<Rightarrow> ''inf''
      | VFloat NegInf \<Rightarrow> ''-inf''
      | VFloat NaN \<Rightarrow> ''nan''
      | VObj s \<Rightarrow> s)"

text \<open>\<^verbatim>\<open>.astype(str).replace('nan', '').replace('', None)\<close> on one cell.\<close>

definition to_text :: "pylib \<Rightarrow> pyval \<Rightarrow> pyval" where
  "to_text L v =
     (let s = astype_str L v;
          s1 = (if s = ''nan'' then '''' else s)
      in if s1 = '''' then VNone else VStr s1)"

definition convert_string_fields :: "pylib \<Rightarrow> row \<Rightarrow> row" where
  "convert_string_fields L r =
     map (\<lambda>(c, v). (c, if c \<in> set string_fields then to_text L v else v)) r"

text \<open>The normalization of a row: renaming, defaults, identifiers to text.\<close>

definition normalize_row :: "pylib \<Rightarrow> row \<Rightarrow> row" where
  "normalize_row L r = convert_string_fields L (fillna (normalize_column_names r))"

text \<open>\<^verbatim>\<open>df.to_dict('records')\<close> on one row: a later column of the same name wins.\<close>

definition to_dict :: "row \<Rightarrow> (string \<rightharpoonup> pyval)" where
  "to_dict r = map_of (rev r)"

subsection \<open>\<^verbatim>\<open>validate_record\<close> and the loop of \<^verbatim>\<open>transform\<close>\<close>

text \<open>The message of a failure, \<^verbatim>\<open>str(e)\<close>, lists the entries of the
  \<^verbatim>\<open>ValidationError\<close>; it is kept as this list, and the empty message is the empty list.\<close>

type_synonym message = "field_error list"

definition validate_record ::
  "pylib \<Rightarrow> (string \<rightharpoonup> pyval) \<Rightarrow> py_exception + (bool \<times> vehicle option \<times> message)" where
  "validate_record L rec =
     (case VehicleRecord L rec of
        Inr validated \<Rightarrow> Inr (True, Some validated, [])
      | Inl (ValidationError errs) \<Rightarrow> Inr (False, None, errs)
      | Inl e \<Rightarrow> Inl e)"

record error_entry =
  record_index :: nat
  vin :: pyval
  error :: message

record DataQualityReport =
  total_records :: nat
  valid_records :: nat
  invalid_records :: nat
  missing_values :: "(string \<times> nat) list"
  validation_errors :: "error_entry list"

text \<open>The state of a \<^verbatim>\<open>DataPipeline\<close> object.\<close>

record DataPipeline =
  self_validation_errors :: "message list"
  missing_values_summary :: "(string \<times> nat) list"

text \<open>
  The \<^verbatim>\<open>for idx, record in enumerate(records)\<close> loop: the valid records, the error
  entries and the messages kept on the object, from index \<open>idx\<close> on. An exception of
  \<^verbatim>\<open>validate_record\<close> ends the loop and the run.
\<close>

fun validate_loop ::
  "pylib \<Rightarrow> nat \<Rightarrow> (string \<rightharpoonup> pyval) list
   \<Rightarrow> vehicle list \<times> error_entry list \<times> message list
   \<Rightarrow> py_exception + (vehicle list \<times> error_entry list \<times> message list)" where
  "validate_loop L idx [] acc = Inr acc"
| "validate_loop L idx (rec # recs) (valid, errors, kept) =
     (case validate_record L rec of
        Inl e \<Rightarrow> Inl e
      | Inr (is_valid, validated_record, error_msg) \<Rightarrow>
          (if is_valid then
             validate_loop L (idx + 1) recs (valid @ [the validated_record], errors, kept)
           else
             validate_loop L (idx + 1) recs
               (valid,
                errors @ [\<lparr>record_index = idx,
                            vin = (case rec ''vin_1_10'' of Some v \<Rightarrow> v
                                   | None \<Rightarrow> VStr ''UNKNOWN''),
                            error = error_msg\<rparr>],
                kept @ [error_msg])))"

definition transform ::
  "pylib \<Rightarrow> DataPipeline \<Rightarrow> dataframe
   \<Rightarrow> py_exception + (DataPipeline \<times> vehicle list \<times> DataQualityReport)" where
  "transform L self df =
     (let df1 = map normalize_column_names df;
          missing = analyze_missing_values df1;
          df2 = map fillna df1;
          df3 = map (convert_string_fields L) df2;
          records = map to_dict df3;
          total = length records
      in case validate_loop L 0 records ([], [], self_validation_errors self) of
           Inl e \<Rightarrow> Inl e
         | Inr (valid, errors, kept) \<Rightarrow>
             Inr (\<lparr>self_validation_errors = kept, missing_values_summary = missing\<rparr>,
                  valid,
                  \<lparr>total_records = total,
                   valid_records = length valid,
                   invalid_records = length errors,
                   missing_values = missing,
                   validation_errors = take 100 errors\<rparr>))"

text \<open>Rows for the examples: the example record under the headers of the extract, the
  same without its DOL id, and with an infinite electric range.\<close>

definition raw_row :: row where
  "raw_row =
     [(''VIN (1-10)'', VStr ''5YJSA1E26K''), (''County'', VStr ''King''),
      (''City'', VStr ''Seattle''), (''State'', VStr ''WA''),
      (''Postal Code'', VInt 98101), (''Model Year'', VInt 2023),
      (''Make'', VStr ''TESLA''), (''Model'', VStr ''MODEL S''),
      (''Electric Vehicle Type'', VStr ''Battery Electric Vehicle (BEV)''),
      (''Clean Alternative Fuel Vehicle (CAFV) Eligibility'', VStr ''Eligible''),
      (''Electric Range'', VInt 405), (''Base MSRP'', VInt 0),
      (''Legislative District'', VInt 43), (''DOL Vehicle ID'', VInt 12345),
      (''Vehicle Location'', VFloat NaN), (''Electric Utility'', VFloat NaN),
      (''2020 Census Tract'', VFloat NaN)]"

definition raw_row_no_dol :: row where
  "raw_row_no_dol = map (\<lambda>(c, v). (c, if c = ''DOL Vehicle ID'' then VFloat NaN else v)) raw_row"

definition new_pipeline :: DataPipeline where
  "new_pipeline = \<lparr>self_validation_errors = [], missing_values_summary = []\<rparr>"

text \<open>What \<^verbatim>\<open>fillna\<close> and the conversion to text make of one cell of column \<open>c\<close>.\<close>

definition normalize_cell :: "pylib \<Rightarrow> string \<Rightarrow> pyval \<Rightarrow> pyval" where
  "normalize_cell L c v =
     (let w = (if isnull v then (case map_of fill_values c of Some d \<Rightarrow> d | None \<Rightarrow> v) else v)
      in if c \<in> set string_fields then to_text L w else w)"

section \<open>The query operations: \<^verbatim>\<open>app/api/routes.py\<close>\<close>

text \<open>
  The store is the \<^verbatim>\<open>vehicles\<close> collection, a list of documents in the order a scan
  returns them, or it cannot be reached: then \<^verbatim>\<open>get_collection\<close> raises, and the
  \<^verbatim>\<open>except Exception\<close> clause of every operation answers with status 500. An
  \<^verbatim>\<open>HTTPException\<close> raised inside the \<^verbatim>\<open>try\<close> is raised again as it is. Status 422 is
  the answer of the framework to a parameter outside the bounds declared for it.
\<close>

datatype store = Unavailable | Collection "vehicle list"

datatype http_error = NotFound | InternalServerError | UnprocessableEntity

subsection \<open>Numbers of the responses\<close>

text \<open>
  The numbers of the responses are Python floats; they are represented by the rationals
  they denote, without the rounding error of double arithmetic. \<^verbatim>\<open>round(x, 2)\<close> rounds
  to the nearest multiple of \<open>1/100\<close>, a tie to the even one.
\<close>

definition round_half_even :: "rat \<Rightarrow> int" where
  "round_half_even x =
     (let f = \<lfloor>x\<rfloor>; d = x - of_int f
      in if d < 1 / 2 then f
         else if 1 / 2 < d then f + 1
         else if even f then f else f + 1)"

definition py_round2 :: "rat \<Rightarrow> rat" where
  "py_round2 x = of_int (round_half_even (x * 100)) / 100"

text \<open>\<^verbatim>\<open>$avg\<close> over the members of a group (a group is never empty).\<close>

definition avg :: "int list \<Rightarrow> rat" where
  "avg xs = of_int (sum_list xs) / of_int (int (length xs))"

subsection \<open>\<^verbatim>\<open>$group\<close> and \<^verbatim>\<open>$sort\<close>\<close>

text \<open>
  The groups of a \<^verbatim>\<open>$group\<close> stage, each with its members in scan order (the order of
  \<^verbatim>\<open>$push\<close>). The store leaves the order of the groups open, and the order of groups
  of equal count after \<^verbatim>\<open>$sort\<close>; here the groups come in the order of their first
  member and the sort is stable.
\<close>

definition first_seen :: "'a list \<Rightarrow> 'a list" where
  "first_seen xs = rev (remdups (rev xs))"

definition group_docs :: "('a \<Rightarrow> 'k) \<Rightarrow> 'a list \<Rightarrow> ('k \<times> 'a list) list" where
  "group_docs key docs = map (\<lambda>k. (k, filter (\<lambda>d. key d = k) docs)) (first_seen (map key docs))"

definition sort_count_desc :: "('k \<times> 'a list) list \<Rightarrow> ('k \<times> 'a list) list" where
  "sort_count_desc gs = sort_key (\<lambda>g. - int (length (snd g))) gs"

subsection \<open>\<^verbatim>\<open>get_summary\<close>\<close>






subsection \<open>\<^verbatim>\<open>get_vehicles_by_county\<close>\<close>

datatype sort_field = SortModelYear | SortMake | SortModel

datatype sort_order = Asc | Desc

record CountyVehiclesResponse =
  cvr_county :: string
  total_count :: nat
  page :: int
  page_size :: int
  total_pages :: int
  vehicles :: "vehicle list"

text \<open>\<^verbatim>\<open>query = {"county": county_name.upper()}\<close>, and \<^verbatim>\<open>if model_year:
  query["model_year"] = model_year\<close>: the test is the truth value of the parameter.\<close>

definition county_query :: "string \<Rightarrow> int option \<Rightarrow> vehicle \<Rightarrow> bool" where
  "county_query county_name year d =
     (county d = upper county_name
      \<and> (case year of
            None \<Rightarrow> True
          | Some y \<Rightarrow> (if y \<noteq> 0 then model_year d = y else True)))"

definition sort_dir :: "sort_order \<Rightarrow> ('a \<Rightarrow> 'k::linorder) \<Rightarrow> 'a list \<Rightarrow> 'a list" where
  "sort_dir ord key xs =
     (case ord of Asc \<Rightarrow> sort_key key xs | Desc \<Rightarrow> rev (sort_key key (rev xs)))"

definition sort_docs :: "sort_field \<Rightarrow> sort_order \<Rightarrow> vehicle list \<Rightarrow> vehicle list" where
  "sort_docs sort_by ord docs =
     (case sort_by of
        SortModelYear \<Rightarrow> sort_dir ord model_year docs
      | SortMake \<Rightarrow> sort_dir ord make_v docs
      | SortModel \<Rightarrow> sort_dir ord model docs)"

definition get_vehicles_by_county ::
  "store \<Rightarrow> string \<Rightarrow> int \<Rightarrow> int \<Rightarrow> int option \<Rightarrow> sort_field \<Rightarrow> sort_order
   \<Rightarrow> http_error + CountyVehiclesResponse" where
  "get_vehicles_by_county db county_name pg pg_size year sort_by ord =
     (if pg < 1 \<or> pg_size < 1 \<or> 100 < pg_size then Inl UnprocessableEntity
      else case db of
        Unavailable \<Rightarrow> Inl InternalServerError
      | Collection docs \<Rightarrow>
          (let matching = filter (county_query county_name year) docs;
               count = length matching
           in if count = 0 then Inl NotFound
              else
                (let pages = \<lceil>(of_int (int count) :: rat) / of_int pg_size\<rceil>;
                     skip = (pg - 1) * pg_size
                 in Inr \<lparr>cvr_county = upper county_name,
                         total_count = count,
                         page = pg,
                         page_size = pg_size,
                         total_pages = pages,
                         vehicles =
                           take (nat pg_size) (drop (nat skip) (sort_docs sort_by ord matching))\<rparr>)))"

subsection \<open>\<^verbatim>\<open>get_models_by_make\<close>\<close>

record ModelStatistics =
  ms_model :: string
  ms_count :: nat
  ms_average_electric_range :: rat

record MakeModelsResponse =
  mmr_make :: string
  total_models :: nat
  most_popular_model :: string
  most_popular_count :: nat
  models :: "ModelStatistics list"

definition get_models_by_make :: "store \<Rightarrow> string \<Rightarrow> http_error + MakeModelsResponse" where
  "get_models_by_make db mk =
     (case db of
        Unavailable \<Rightarrow> Inl InternalServerError
      | Collection docs \<Rightarrow>
          (let results =
                 sort_count_desc (group_docs model (filter (\<lambda>d. make_v d = upper mk) docs))
           in case results of
                [] \<Rightarrow> Inl NotFound
              | most_popular # _ \<Rightarrow>
                  (let ms = map (\<lambda>(k, members).
                              \<lparr>ms_model = k, ms_count = length members,
                               ms_average_electric_range =
                                 py_round2 (avg (map electric_range members))\<rparr>) results
                   in Inr \<lparr>mmr_make = upper mk,
                           total_models = length ms,
                           most_popular_model = fst most_popular,
                           most_popular_count = length (snd most_popular),
                           models = ms\<rparr>)))"

subsection \<open>\<^verbatim>\<open>analyze_vehicles\<close>\<close>

text \<open>\<^verbatim>\<open>AnalyzeFilters\<close>; the dictionary \<^verbatim>\<open>model_years\<close> is the list of its items.\<close>

record AnalyzeFilters =
  makes :: "string list option"
  model_years :: "(string \<times> int) list option"
  min_electric_range :: "int option"
  counties :: "string list option"
  vehicle_types :: "string list option"

datatype group_field = GCounty | GMake | GModelYear | GVehicleType

record AnalyzeRequest =
  filters :: AnalyzeFilters
  group_by :: group_field

record GroupStatistics =
  group_value :: string
  gs_count :: nat
  gs_average_electric_range :: rat
  most_common_vehicle :: "string option"

record AnalyzeResponse =
  ar_group_by :: string
  total_matching_vehicles :: nat
  groups :: "GroupStatistics list"

text \<open>The \<^verbatim>\<open>$match\<close> stage: each filter enters it only when its value is true in
  Python's sense (not \<^verbatim>\<open>None\<close>, not empty, not 0).\<close>

definition year_match :: "(string \<times> int) list \<Rightarrow> int \<Rightarrow> bool" where
  "year_match my y =
     ((case map_of my ''start'' of None \<Rightarrow> True | Some s \<Rightarrow> s \<le> y)
      \<and> (case map_of my ''end'' of None \<Rightarrow> True | Some e \<Rightarrow> y \<le> e))"

definition match_stage :: "AnalyzeFilters \<Rightarrow> vehicle \<Rightarrow> bool" where
  "match_stage f d =
     ((case makes f of
         None \<Rightarrow> True
       | Some ms \<Rightarrow> (if ms \<noteq> [] then make_v d \<in> set (map upper ms) else True))
      \<and> (case model_years f of
            None \<Rightarrow> True
          | Some my \<Rightarrow> (if my \<noteq> [] then year_match my (model_year d) else True))
      \<and> (case min_electric_range f of
            None \<Rightarrow> True
          | Some n \<Rightarrow> (if n \<noteq> 0 then n \<le> electric_range d else True))
      \<and> (case counties f of
            None \<Rightarrow> True
          | Some cs \<Rightarrow> (if cs \<noteq> [] then county d \<in> set (map upper cs) else True))
      \<and> (case vehicle_types f of
            None \<Rightarrow> True
          | Some vts \<Rightarrow>
              (if vts \<noteq> [] then electric_vehicle_type d \<in> set (map upper vts) else True)))"

text \<open>The value of \<^verbatim>\<open>"$" + group_by\<close> in a document: an \<^verbatim>\<open>_id\<close> of a group. The documents
  have no field \<^verbatim>\<open>vehicle_type\<close>, so that path gives null.\<close>

datatype group_id = IdStr string | IdInt int | IdNull

definition group_key :: "group_field \<Rightarrow> vehicle \<Rightarrow> group_id" where
  "group_key g d =
     (case g of
        GCounty \<Rightarrow> IdStr (county d)
      | GMake \<Rightarrow> IdStr (make_v d)
      | GModelYear \<Rightarrow> IdInt (model_year d)
      | GVehicleType \<Rightarrow> IdNull)"

definition group_field_name :: "group_field \<Rightarrow> string" where
  "group_field_name g =
     (case g of
        GCounty \<Rightarrow> ''county''
      | GMake \<Rightarrow> ''make''
      | GModelYear \<Rightarrow> ''model_year''
      | GVehicleType \<Rightarrow> ''vehicle_type'')"

text \<open>\<^verbatim>\<open>str(doc["_id"])\<close>\<close>

definition str_of_id :: "group_id \<Rightarrow> string" where
  "str_of_id k = (case k of IdStr s \<Rightarrow> s | IdInt i \<Rightarrow> show_int i | IdNull \<Rightarrow> ''None'')"

text \<open>The key of a collected vehicle, \<^verbatim>\<open>f"{v['make']} {v['model']}"\<close>.\<close>

definition vehicle_label :: "vehicle \<Rightarrow> string" where
  "vehicle_label d = make_v d @ '' '' @ model d"

text \<open>\<^verbatim>\<open>vehicle_counts[key] = vehicle_counts.get(key, 0) + 1\<close> on a dictionary, which keeps
  its keys in the order of their insertion.\<close>

fun count_key :: "string \<Rightarrow> (string \<times> nat) list \<Rightarrow> (string \<times> nat) list" where
  "count_key k [] = [(k, 1)]"
| "count_key k ((k', n) # rest) =
     (if k' = k then (k', n + 1) # rest else (k', n) # count_key k rest)"

definition vehicle_counts :: "string list \<Rightarrow> (string \<times> nat) list" where
  "vehicle_counts keys = foldl (\<lambda>counts k. count_key k counts) [] keys"

text \<open>\<^verbatim>\<open>max(items, key=lambda x: x[1])\<close>: the first item of the largest count.\<close>

definition max_item :: "(string \<times> nat) \<Rightarrow> (string \<times> nat) list \<Rightarrow> (string \<times> nat)" where
  "max_item x xs = foldl (\<lambda>best y. if snd best < snd y then y else best) x xs"

definition most_common :: "string list \<Rightarrow> string option" where
  "most_common keys =
     (case vehicle_counts keys of
        [] \<Rightarrow> None
      | x # xs \<Rightarrow> Some (fst (max_item x xs)))"

definition analyze_vehicles :: "store \<Rightarrow> AnalyzeRequest \<Rightarrow> http_error + AnalyzeResponse" where
  "analyze_vehicles db request =
     (if (case min_electric_range (filters request) of None \<Rightarrow> False | Some n \<Rightarrow> n < 0)
      then Inl UnprocessableEntity
      else case db of
        Unavailable \<Rightarrow> Inl InternalServerError
      | Collection docs \<Rightarrow>
          (let results =
                 sort_count_desc
                   (group_docs (group_key (group_by request))
                      (filter (match_stage (filters request)) docs))
           in if results = [] then Inl NotFound
              else
                Inr \<lparr>ar_group_by = group_field_name (group_by request),
                     total_matching_vehicles = sum_list (map (\<lambda>(k, members). length members) results),
                     groups =
                       map (\<lambda>(k, members).
                              \<lparr>group_value = str_of_id k,
                               gs_count = length members,
                               gs_average_electric_range =
                                 py_round2 (avg (map electric_range members)),
                               most_common_vehicle =
                                 most_common (map vehicle_label members)\<rparr>) results\<rparr>))"

subsection \<open>\<^verbatim>\<open>get_trends\<close>\<close>

record YearTrend =
  yt_model_year :: int
  vehicle_count :: nat
  yt_average_electric_range :: rat
  bev_count :: nat
  phev_count :: nat
  bev_percentage :: rat
  phev_percentage :: rat

record TrendsResponse =
  trends :: "YearTrend list"
  overall_growth_rate :: "rat option"
  range_improvement_rate :: "rat option"

text \<open>One group of the \<^verbatim>\<open>$group\<close> stage by model year, made a \<^verbatim>\<open>YearTrend\<close>.\<close>

definition year_trend :: "int \<times> vehicle list \<Rightarrow> YearTrend" where
  "year_trend g =
     (let members = snd g;
          bev = length (filter (\<lambda>d. contains ''BEV'' (electric_vehicle_type d)) members);
          phev = length (filter (\<lambda>d. contains ''PHEV'' (electric_vehicle_type d)) members);
          total = bev + phev;
          bev_pct = (if 0 < total then of_int (int bev) / of_int (int total) * 100 else 0);
          phev_pct = (if 0 < total then of_int (int phev) / of_int (int total) * 100 else 0)
      in \<lparr>yt_model_year = fst g,
          vehicle_count = length members,
          yt_average_electric_range = py_round2 (avg (map electric_range members)),
          bev_count = bev,
          phev_count = phev,
          bev_percentage = py_round2 bev_pct,
          phev_percentage = py_round2 phev_pct\<rparr>)"

text \<open>\<^verbatim>\<open>round(x, 2) if x else None\<close>: a rate of 0 is false.\<close>

definition round_if_true :: "rat option \<Rightarrow> rat option" where
  "round_if_true x =
     (case x of None \<Rightarrow> None | Some r \<Rightarrow> (if r \<noteq> 0 then Some (py_round2 r) else None))"

definition get_trends :: "store \<Rightarrow> http_error + TrendsResponse" where
  "get_trends db =
     (case db of
        Unavailable \<Rightarrow> Inl InternalServerError
      | Collection docs \<Rightarrow>
          (let results = sort_key fst (group_docs model_year docs)
           in if results = [] then Inl NotFound
              else
                (let ts = map year_trend results
                 in if 2 \<le> length ts then
                      (let first_year_count = int (vehicle_count (hd ts));
                           last_year_count = int (vehicle_count (last ts));
                           years_diff = yt_model_year (last ts) - yt_model_year (hd ts);
                           growth =
                             (if 0 < years_diff \<and> 0 < first_year_count then
                                Some (of_int (last_year_count - first_year_count)
                                        / of_int first_year_count / of_int years_diff * 100)
                              else None);
                           first_year_range = yt_average_electric_range (hd ts);
                           last_year_range = yt_average_electric_range (last ts)
                       in if 0 < first_year_range then
                            (if years_diff = 0 then Inl InternalServerError
                             else
                               Inr \<lparr>trends = ts,
                                    overall_growth_rate = round_if_true growth,
                                    range_improvement_rate =
                                      round_if_true
                                        (Some ((last_year_range - first_year_range)
                                                 / first_year_range / of_int years_diff * 100))\<rparr>)
                          else
                            Inr \<lparr>trends = ts,
                                 overall_growth_rate = round_if_true growth,
                                 range_improvement_rate = round_if_true None\<rparr>)
                    else
                      Inr \<lparr>trends = ts,
                           overall_growth_rate = round_if_true None,
                           range_improvement_rate = round_if_true None\<rparr>)))"

subsection \<open>Documents for the examples\<close>

definition ev :: "string \<Rightarrow> string \<Rightarrow> int \<Rightarrow> int \<Rightarrow> vehicle" where
  "ev mk mdl yr rng =
     \<lparr>vin_1_10 = ''5YJSA1E26K'', county = ''KING'', city = ''SEATTLE'', state = ''WA'',
      postal_code = None, model_year = yr, make_v = mk, model = mdl,
      electric_vehicle_type = BEV_LABEL, cafv_eligibility = ''Eligible'',
      electric_range = rng, base_msrp = 0, legislative_district = None,
      dol_vehicle_id = ''1'', vehicle_location = None, electric_utility = None,
      census_tract_2020 = None\<rparr>"

definition sample_store :: "vehicle list" where
  "sample_store =
     [ev ''TESLA'' ''MODEL S'' 2023 405, ev ''TESLA'' ''MODEL 3'' 2024 358,
      ev ''CHEVROLET'' ''BOLT EV'' 2022 259]"

definition no_filters :: AnalyzeFilters where
  "no_filters = \<lparr>makes = None, model_years = None, min_electric_range = None,
                  counties = None, vehicle_types = None\<rparr>"

definition by_county :: AnalyzeRequest where
  "by_county = \<lparr>filters = no_filters, group_by = GCounty\<rparr>"

definition tie_store :: "vehicle list" where
  "tie_store =
     [ev ''TESLA'' ''MODEL 3'' 2024 358, ev ''NISSAN'' ''LEAF'' 2023 150,
      ev ''NISSAN'' ''LEAF'' 2023 150, ev ''TESLA'' ''MODEL 3'' 2024 358]"

definition collision_store :: "vehicle list" where
  "collision_store =
     [ev ''TESLA'' ''MODEL 3'' 2024 358, ev ''TESLA'' ''MODEL 3'' 2024 358,
      ev ''NISSAN'' ''LEAF'' 2023 150, ev ''NISSAN'' ''LEAF'' 2023 150,
      ev ''MERCEDES'' ''BENZ EQS'' 2023 340, ev ''MERCEDES BENZ'' ''EQS'' 2023 340,
      ev ''MERCEDES'' ''BENZ EQS'' 2023 340]"



section \<open>Properties of the validator\<close>

subsection \<open>Numeric coercion\<close>

lemma trunc_of_int [simp]: "trunc (of_int i) = i"
  by (simp add: trunc_def)

lemma trunc_neg_iff: "trunc q < 0 \<longleftrightarrow> q \<le> - 1"
proof (cases "0 \<le> q")
  case True
  then show ?thesis by (simp add: trunc_def)
next
  case False
  have "\<lceil>q\<rceil> < 0 \<longleftrightarrow> \<lceil>q\<rceil> \<le> - 1" by linarith
  also have "\<dots> \<longleftrightarrow> q \<le> of_int (- 1)" by (rule ceiling_le_iff)
  finally show ?thesis using False by (simp add: trunc_def)
qed

lemma float_of_int_small: "\<bar>i\<bar> < 2 ^ 53 \<Longrightarrow> float_of_int i = Inr (Finite (of_int i))"
proof -
  assume a: "\<bar>i\<bar> < 2 ^ 53"
  then have r: "round_to_double \<bar>i\<bar> = \<bar>i\<bar>" by (simp add: round_to_double_def)
  have "(2::int) ^ 53 \<le> 2 ^ 1024" by (rule power_increasing) simp_all
  with a have "\<not> (2::int) ^ 1024 \<le> \<bar>i\<bar>" by linarith
  moreover have "sgn i * \<bar>i\<bar> = i" by (simp add: sgn_if)
  ultimately show ?thesis by (simp add: float_of_int_def r)
qed

lemma handle_numeric_na_int: "\<bar>i\<bar> < 2 ^ 53 \<Longrightarrow> handle_numeric_na L (VInt i) = Inr i"
  by (simp add: handle_numeric_na_def py_float_def float_of_int_small py_int_def
      catch_value_type_def)

lemma handle_numeric_na_sentinel:
  "v \<in> set [VStr '''', VStr ''NA'', VStr ''N/A'', VNone] \<Longrightarrow> handle_numeric_na L v = Inr 0"
  by (simp add: handle_numeric_na_def)

lemma handle_numeric_na_non_numeric:
  "float_of_str L s = None \<Longrightarrow> handle_numeric_na L (VStr s) = Inr 0"
  by (simp add: handle_numeric_na_def py_float_def catch_value_type_def)

lemma handle_numeric_na_negative:
  assumes "handle_numeric_na L v = Inr n"
  shows "n < 0 \<longleftrightarrow>
    (v \<notin> set [VStr '''', VStr ''NA'', VStr ''N/A'', VNone]
      \<and> (\<exists>q. py_float L v = Inr (Finite q) \<and> q \<le> - 1))"
proof (cases "v \<in> set [VStr '''', VStr ''NA'', VStr ''N/A'', VNone]")
  case True
  with assms show ?thesis by (simp add: handle_numeric_na_def)
next
  case False
  show ?thesis
  proof (cases "py_float L v")
    case (Inl e)
    with assms False show ?thesis
      by (auto simp: handle_numeric_na_def catch_value_type_def split: if_splits)
  next
    case (Inr f)
    with assms False show ?thesis
      by (cases f)
        (auto simp: handle_numeric_na_def catch_value_type_def py_int_def trunc_neg_iff
          split: if_splits)
  qed
qed

text \<open>
  Claim C2, as the code has it: the sentinels \<^verbatim>\<open>""\<close>, \<^verbatim>\<open>"NA"\<close>, \<^verbatim>\<open>"N/A"\<close> and
  \<^verbatim>\<open>None\<close> coerce to 0, and so does every string that \<^verbatim>\<open>float\<close> rejects; any other value
  is truncated toward zero, so the coerced integer is negative exactly when the value is
  a number at most \<open>-1\<close>, and then (and only then) the \<open>\<ge> 0\<close> constraint of the field
  reports a validation error.
\<close>

theorem numeric_coercion_amended:
  "(v0 \<in> set [VStr '''', VStr ''NA'', VStr ''N/A'', VNone] \<longrightarrow> handle_numeric_na L v0 = Inr 0)
   \<and> (float_of_str L s = None \<longrightarrow> handle_numeric_na L (VStr s) = Inr 0)
   \<and> (handle_numeric_na L v = Inr n \<longrightarrow>
        (n < 0 \<longleftrightarrow> v \<notin> set [VStr '''', VStr ''NA'', VStr ''N/A'', VNone]
                   \<and> (\<exists>q. py_float L v = Inr (Finite q) \<and> q \<le> - 1))
        \<and> numeric_field L (Some v) = Inr (if n < 0 then Inl GreaterThanEqual else Inr n))"
  using handle_numeric_na_sentinel [of v0 L] handle_numeric_na_non_numeric [of L s]
    handle_numeric_na_negative [of L v n]
  by (simp add: numeric_field_def)

text \<open>The theorem at the sentinel \<^verbatim>\<open>"NA"\<close>, the text \<^verbatim>\<open>"abc"\<close> and the integer \<open>-5\<close>.\<close>

theorem numeric_coercion_amended_witness:
  "handle_numeric_na sample_lib (VStr ''NA'') = Inr 0
   \<and> handle_numeric_na sample_lib (VStr ''abc'') = Inr 0
   \<and> handle_numeric_na sample_lib (VInt (- 5)) = Inr (- 5)
   \<and> py_float sample_lib (VInt (- 5)) = Inr (Finite (- 5))
   \<and> numeric_field sample_lib (Some (VInt (- 5))) = Inr (Inl GreaterThanEqual)"
proof -
  have a: "VStr ''NA'' \<in> set [VStr '''', VStr ''NA'', VStr ''N/A'', VNone]" by simp
  have b: "float_of_str sample_lib ''abc'' = None" by code_simp
  have c: "handle_numeric_na sample_lib (VInt (- 5)) = Inr (- 5)"
    by (simp add: handle_numeric_na_int)
  have d: "py_float sample_lib (VInt (- 5)) = Inr (Finite (- 5))"
    by (simp add: py_float_def float_of_int_small)
  show ?thesis
    using numeric_coercion_amended [of "VStr ''NA''" sample_lib "''abc''" "VInt (- 5)" "- 5"] a b c d
    by simp
qed

text \<open>
  Claim C2 as stated fails: an electric range of \<open>-5\<close> is coerced to \<open>-5\<close>, and the record
  (valid otherwise) is rejected by the \<open>\<ge> 0\<close> constraint.
\<close>

theorem numeric_coercion_counterexample:
  "handle_numeric_na sample_lib (VInt (- 5)) = Inr (- 5)
   \<and> VehicleRecord sample_lib negative_range_record
       = Inl (ValidationError [(''electric_range'', GreaterThanEqual)])"
  by code_simp

subsection \<open>Required text fields\<close>

lemma errors_of_Inl [simp]: "errors_of name (Inl k) = [(name, k)]"
  by (simp add: errors_of_def)

lemma errors_of_names: "x \<in> set (errors_of name r) \<Longrightarrow> fst x = name"
  by (cases r) (auto simp: errors_of_def)




lemma handle_numeric_na_raises: "handle_numeric_na L v = Inl e \<Longrightarrow> e = OverflowError"
  by (cases v; cases "py_float L v")
     (auto simp: handle_numeric_na_def catch_value_type_def py_float_def float_of_int_def
       py_int_def Let_def split: if_splits option.splits pyfloat.splits)

lemma numeric_field_raises: "numeric_field L a = Inl e \<Longrightarrow> e = OverflowError"
  by (auto simp: numeric_field_def dest: handle_numeric_na_raises split: option.splits sum.splits)

lemma VehicleRecord_raises:
  "VehicleRecord L kw = Inl e \<Longrightarrow> e = OverflowError \<or> (\<exists>errs. e = ValidationError errs)"
  by (auto simp: VehicleRecord_def Let_def dest: numeric_field_raises
      split: sum.splits if_splits)


lemma VehicleRecord_raise_range:
  "numeric_field L (kw ''electric_range'') = Inl e \<Longrightarrow> VehicleRecord L kw = Inl e"
  by (simp add: VehicleRecord_def)

lemma VehicleRecord_raise_msrp:
  "numeric_field L (kw ''electric_range'') = Inr r \<Longrightarrow>
   numeric_field L (kw ''base_msrp'') = Inl e \<Longrightarrow> VehicleRecord L kw = Inl e"
  by (simp add: VehicleRecord_def)

lemma VehicleRecord_numeric:
  assumes "VehicleRecord L kw \<noteq> Inl OverflowError"
  obtains rng msrp where "numeric_field L (kw ''electric_range'') = Inr rng"
    and "numeric_field L (kw ''base_msrp'') = Inr msrp"
proof (cases "numeric_field L (kw ''electric_range'')")
  case (Inl e)
  then show ?thesis
    using assms VehicleRecord_raise_range [of L kw e] numeric_field_raises [of L _ e] by simp
next
  case r: (Inr rng)
  show ?thesis
  proof (cases "numeric_field L (kw ''base_msrp'')")
    case (Inl e)
    then show ?thesis
      using assms r VehicleRecord_raise_msrp [of L kw rng e] numeric_field_raises [of L _ e]
      by simp
  next
    case (Inr msrp)
    with r that show ?thesis by blast
  qed
qed




subsection \<open>The vehicle type\<close>

lemma errors_of_other: "name \<noteq> n \<Longrightarrow> n \<notin> fst ` set (errors_of name r)"
  by (cases r) (simp_all add: errors_of_def)

lemma to_upper_idem: "to_upper (to_upper c) = to_upper c"
  by (simp add: to_upper_def)

lemma upper_idem [simp]: "upper (upper s) = upper s"
  by (simp add: upper_def to_upper_idem)

lemma ev_type_field_text:
  "ev_type_field (Some (VStr s)) = Inr (validate_ev_type (upper (strip s)))"
  by (simp add: ev_type_field_def norm_str_field_def str_field_def normalize_strings_def)

text \<open>
  Claim C4: for every text \<open>s\<close> given as electric_vehicle_type, with \<open>u\<close> the trimmed,
  uppercased \<open>s\<close>: if \<open>u\<close> is one of the two long labels or the two short codes the field
  is \<open>u\<close>; otherwise, if \<open>u\<close> contains \<^verbatim>\<open>BEV\<close> it is the long BEV label, else if \<open>u\<close>
  contains \<^verbatim>\<open>PHEV\<close> the long PHEV label, else \<open>u\<close> unchanged; and no validation error
  names the field.
\<close>

theorem ev_type_canonical:
  "ev_type_field (Some (VStr s)) =
     Inr (let u = upper (strip s) in
          if u \<in> set [BEV_LABEL, PHEV_LABEL, ''BEV'', ''PHEV''] then u
          else if contains ''BEV'' u then BEV_LABEL
          else if contains ''PHEV'' u then PHEV_LABEL
          else u)
   \<and> (kw ''electric_vehicle_type'' = Some (VStr s) \<longrightarrow>
        VehicleRecord L kw = Inl (ValidationError errs) \<longrightarrow>
        ''electric_vehicle_type'' \<notin> fst ` set errs)"
proof
  show "ev_type_field (Some (VStr s)) =
     Inr (let u = upper (strip s) in
          if u \<in> set [BEV_LABEL, PHEV_LABEL, ''BEV'', ''PHEV''] then u
          else if contains ''BEV'' u then BEV_LABEL
          else if contains ''PHEV'' u then PHEV_LABEL
          else u)"
    by (simp add: ev_type_field_text validate_ev_type_def valid_types_def Let_def)
next
  show "kw ''electric_vehicle_type'' = Some (VStr s) \<longrightarrow>
        VehicleRecord L kw = Inl (ValidationError errs) \<longrightarrow>
        ''electric_vehicle_type'' \<notin> fst ` set errs"
  proof (intro impI)
    assume k: "kw ''electric_vehicle_type'' = Some (VStr s)"
      and v: "VehicleRecord L kw = Inl (ValidationError errs)"
    from v have "VehicleRecord L kw \<noteq> Inl OverflowError" by simp
    then obtain rng msrp where n1: "numeric_field L (kw ''electric_range'') = Inr rng"
      and n2: "numeric_field L (kw ''base_msrp'') = Inr msrp"
      by (rule VehicleRecord_numeric)
    have e: "errors_of ''electric_vehicle_type'' (ev_type_field (kw ''electric_vehicle_type'')) = []"
      by (simp add: k ev_type_field_text errors_of_def)
    from v have eq: "errs =
        errors_of ''vin_1_10'' (str_field (kw ''vin_1_10''))
        @ errors_of ''county'' (norm_str_field (kw ''county''))
        @ errors_of ''city'' (norm_str_field (kw ''city''))
        @ errors_of ''state'' (state_field (kw ''state''))
        @ errors_of ''postal_code'' (opt_str_field (kw ''postal_code''))
        @ errors_of ''model_year'' (model_year_field L (kw ''model_year''))
        @ errors_of ''make'' (norm_str_field (kw ''make''))
        @ errors_of ''model'' (norm_str_field (kw ''model''))
        @ errors_of ''electric_vehicle_type'' (ev_type_field (kw ''electric_vehicle_type''))
        @ errors_of ''cafv_eligibility'' (str_field (kw ''cafv_eligibility''))
        @ errors_of ''electric_range'' rng
        @ errors_of ''base_msrp'' msrp
        @ errors_of ''legislative_district'' (opt_str_field (kw ''legislative_district''))
        @ errors_of ''dol_vehicle_id'' (str_field (kw ''dol_vehicle_id''))
        @ errors_of ''vehicle_location'' (opt_str_field (kw ''vehicle_location''))
        @ errors_of ''electric_utility'' (opt_str_field (kw ''electric_utility''))
        @ errors_of ''census_tract_2020'' (opt_str_field (kw ''census_tract_2020''))"
      by (clarsimp simp add: VehicleRecord_def Let_def n1 n2 split: if_splits)
    show "''electric_vehicle_type'' \<notin> fst ` set errs"
      unfolding eq by (simp add: image_Un errors_of_other e)
  qed
qed

text \<open>The theorem at a free-form hybrid label, in a record rejected for its model year.\<close>

theorem ev_type_canonical_witness:
  "ev_type_field (Some (VStr '' plug-in hybrid (phev) '')) = Inr PHEV_LABEL
   \<and> old_hybrid_record ''electric_vehicle_type'' = Some (VStr '' plug-in hybrid (phev) '')
   \<and> VehicleRecord sample_lib old_hybrid_record
        = Inl (ValidationError [(''model_year'', GreaterThanEqual)])
   \<and> ''electric_vehicle_type'' \<notin> fst ` set [(''model_year'', GreaterThanEqual)]"
proof -
  have a: "old_hybrid_record ''electric_vehicle_type'' = Some (VStr '' plug-in hybrid (phev) '')"
    by (simp add: old_hybrid_record_def)
  have b: "VehicleRecord sample_lib old_hybrid_record
        = Inl (ValidationError [(''model_year'', GreaterThanEqual)])"
    by code_simp
  have c: "ev_type_field (Some (VStr '' plug-in hybrid (phev) '')) = Inr PHEV_LABEL"
    by code_simp
  show ?thesis
    using ev_type_canonical [of "'' plug-in hybrid (phev) ''" old_hybrid_record sample_lib
        "[(''model_year'', GreaterThanEqual)]"] a b c
    by simp
qed

section \<open>Properties of the pipeline\<close>

subsection \<open>The quality report\<close>

lemma validate_record_raises:
  "validate_record L rec = Inl e \<Longrightarrow> e = OverflowError \<and> VehicleRecord L rec = Inl OverflowError"
  using VehicleRecord_raises [of L rec]
  by (auto simp: validate_record_def split: sum.splits py_exception.splits)

lemma validate_record_total:
  "VehicleRecord L rec \<noteq> Inl OverflowError \<Longrightarrow> \<exists>res. validate_record L rec = Inr res"
  using validate_record_raises [of L rec] by (cases "validate_record L rec") auto

lemma validate_loop_counts:
  "validate_loop L idx recs (valid, errors, kept) = Inr (valid', errors', kept') \<Longrightarrow>
   length valid' + length errors' = length valid + length errors + length recs"
proof (induction recs arbitrary: idx valid errors kept)
  case Nil
  then show ?case by simp
next
  case (Cons rec recs)
  then show ?case
    by (fastforce split: sum.splits prod.splits if_splits)
qed

lemma validate_loop_raises:
  "validate_loop L idx recs acc = Inl e \<Longrightarrow>
   e = OverflowError \<and> (\<exists>rec \<in> set recs. VehicleRecord L rec = Inl OverflowError)"
proof (induction recs arbitrary: idx acc)
  case Nil
  then show ?case by simp
next
  case (Cons rec recs)
  obtain valid errors kept where acc: "acc = (valid, errors, kept)" by (cases acc) auto
  show ?case
  proof (cases "validate_record L rec")
    case (Inl e')
    with Cons.prems acc have "e' = e" by simp
    with Inl validate_record_raises [of L rec e'] show ?thesis by simp
  next
    case (Inr res)
    with Cons.prems acc obtain idx' acc' where "validate_loop L idx' recs acc' = Inl e"
      by (cases res) (auto split: if_splits)
    from Cons.IH [OF this] show ?thesis by simp
  qed
qed

lemma records_of_frame:
  "map to_dict (map (convert_string_fields L) (map fillna (map normalize_column_names df)))
   = map (\<lambda>r. to_dict (normalize_row L r)) df"
  by (simp add: normalize_row_def comp_def)

lemma transform_unfold:
  "transform L self df =
     (case validate_loop L 0 (map (\<lambda>r. to_dict (normalize_row L r)) df)
             ([], [], self_validation_errors self) of
        Inl e \<Rightarrow> Inl e
      | Inr (valid, errors, kept) \<Rightarrow>
          Inr (\<lparr>self_validation_errors = kept,
                 missing_values_summary = analyze_missing_values (map normalize_column_names df)\<rparr>,
               valid,
               \<lparr>total_records = length df,
                valid_records = length valid,
                invalid_records = length errors,
                missing_values = analyze_missing_values (map normalize_column_names df),
                validation_errors = take 100 errors\<rparr>))"
  by (simp only: transform_def Let_def records_of_frame length_map)

text \<open>
  Claim C6: for every input frame, a run of \<^verbatim>\<open>transform\<close> either produces a quality
  report with \<open>valid_records + invalid_records = total_records\<close>, where \<open>total_records\<close>
  is the number of input rows, or it ends with the \<^verbatim>\<open>OverflowError\<close> that the validation
  of one of the rows raised (then no report is produced).
\<close>

theorem quality_report_counts:
  "case transform L self df of
     Inr (self', valid, report) \<Rightarrow>
       valid_records report + invalid_records report = total_records report
       \<and> total_records report = length df
   | Inl e \<Rightarrow>
       e = OverflowError
       \<and> (\<exists>r \<in> set df. VehicleRecord L (to_dict (normalize_row L r)) = Inl OverflowError)"
proof (cases "validate_loop L 0 (map (\<lambda>r. to_dict (normalize_row L r)) df)
                ([], [], self_validation_errors self)")
  case (Inl e)
  from validate_loop_raises [OF this] Inl show ?thesis
    by (simp add: transform_unfold)
next
  case (Inr res)
  obtain valid errors kept where res: "res = (valid, errors, kept)" by (cases res) auto
  from validate_loop_counts [OF Inr [unfolded res]] Inr res show ?thesis
    by (simp add: transform_unfold)
qed

text \<open>The theorem at a frame of two rows, the second without its DOL id: one valid, one
  invalid, two in total.\<close>

theorem quality_report_counts_witness:
  "map_sum id (\<lambda>(self', valid, report).
       (total_records report, valid_records report, invalid_records report))
     (transform sample_lib new_pipeline [raw_row, raw_row_no_dol]) = Inr (2, 1, 1)
   \<and> (case transform sample_lib new_pipeline [raw_row, raw_row_no_dol] of
        Inr (self', valid, report) \<Rightarrow>
          valid_records report + invalid_records report = total_records report
          \<and> total_records report = length [raw_row, raw_row_no_dol]
      | Inl e \<Rightarrow>
          e = OverflowError
          \<and> (\<exists>r \<in> set [raw_row, raw_row_no_dol].
                VehicleRecord sample_lib (to_dict (normalize_row sample_lib r))
                  = Inl OverflowError))"
proof
  show "map_sum id (\<lambda>(self', valid, report).
       (total_records report, valid_records report, invalid_records report))
     (transform sample_lib new_pipeline [raw_row, raw_row_no_dol]) = Inr (2, 1, 1)"
    by code_simp
next
  show "case transform sample_lib new_pipeline [raw_row, raw_row_no_dol] of
        Inr (self', valid, report) \<Rightarrow>
          valid_records report + invalid_records report = total_records report
          \<and> total_records report = length [raw_row, raw_row_no_dol]
      | Inl e \<Rightarrow>
          e = OverflowError
          \<and> (\<exists>r \<in> set [raw_row, raw_row_no_dol].
                VehicleRecord sample_lib (to_dict (normalize_row sample_lib r))
                  = Inl OverflowError)"
    by (rule quality_report_counts)
qed

subsection \<open>Normalizing twice\<close>

lemma canonical_names_unmapped:
  "\<forall>n \<in> set (map snd column_mapping). map_of column_mapping n = None"
  by code_simp

lemma rename_column_idem: "rename_column (rename_column c) = rename_column c"
proof (cases "map_of column_mapping c")
  case None
  then show ?thesis by (simp add: rename_column_def)
next
  case (Some n)
  then have "(c, n) \<in> set column_mapping" by (rule map_of_SomeD)
  then have "n \<in> set (map snd column_mapping)" by force
  with canonical_names_unmapped have "map_of column_mapping n = None" by blast
  with Some show ?thesis by (simp add: rename_column_def)
qed

lemma to_text_cases:
  "to_text L v = VNone \<or> (\<exists>s. to_text L v = VStr s \<and> s \<noteq> '''' \<and> s \<noteq> ''nan'')"
  by (simp add: to_text_def Let_def)

lemma to_text_text: "s \<noteq> '''' \<Longrightarrow> s \<noteq> ''nan'' \<Longrightarrow> to_text L (VStr s) = VStr s"
  by (simp add: to_text_def astype_str_def Let_def)

lemma to_text_empty: "to_text L (VStr '''') = VNone"
  by (simp add: to_text_def astype_str_def Let_def)

lemma fill_values_not_null: "\<forall>d \<in> set (map snd fill_values). \<not> isnull d"
  by (simp add: fill_values_def isnull_def)

lemma fill_value_not_null: "map_of fill_values c = Some d \<Longrightarrow> \<not> isnull d"
  using fill_values_not_null map_of_SomeD [of fill_values c d] by force

lemma fill_string_field:
  assumes "c \<in> set string_fields" and "c \<noteq> ''dol_vehicle_id''"
  shows "map_of fill_values c = Some (VStr '''')"
proof -
  from assms have "c = ''postal_code'' \<or> c = ''legislative_district'' \<or> c = ''census_tract_2020''"
    by (simp only: string_fields_def list.set insert_iff empty_iff simp_thms)
  moreover have "map_of fill_values ''postal_code'' = Some (VStr '''')"
    and "map_of fill_values ''legislative_district'' = Some (VStr '''')"
    and "map_of fill_values ''census_tract_2020'' = Some (VStr '''')"
    by (simp_all add: fill_values_def)
  ultimately show ?thesis by (elim disjE) simp_all
qed

lemma normalize_cell_idem:
  assumes "\<not> (c = ''dol_vehicle_id'' \<and> normalize_cell L c v = VNone)"
  shows "normalize_cell L c (normalize_cell L c v) = normalize_cell L c v"
proof (cases "c \<in> set string_fields")
  case True
  let ?w = "if isnull v then (case map_of fill_values c of Some d \<Rightarrow> d | None \<Rightarrow> v) else v"
  have n: "normalize_cell L c v = to_text L ?w"
    using True by (simp add: normalize_cell_def Let_def)
  from to_text_cases [of L ?w] show ?thesis
  proof
    assume e: "to_text L ?w = VNone"
    with assms n have "c \<noteq> ''dol_vehicle_id''" by simp
    with True have "map_of fill_values c = Some (VStr '''')" by (rule fill_string_field)
    then have "normalize_cell L c VNone = VNone"
      using True by (simp add: normalize_cell_def Let_def isnull_def to_text_empty)
    with n e show ?thesis by simp
  next
    assume "\<exists>s. to_text L ?w = VStr s \<and> s \<noteq> '''' \<and> s \<noteq> ''nan''"
    then obtain s where s: "to_text L ?w = VStr s" "s \<noteq> ''''" "s \<noteq> ''nan''" by blast
    then have "normalize_cell L c (VStr s) = VStr s"
      using True by (simp add: normalize_cell_def Let_def isnull_def to_text_text)
    with n s show ?thesis by simp
  qed
next
  case False
  show ?thesis
  proof (cases "isnull v")
    case null: True
    show ?thesis
    proof (cases "map_of fill_values c")
      case None
      with null False show ?thesis by (simp add: normalize_cell_def Let_def)
    next
      case (Some d)
      then have "\<not> isnull d" by (rule fill_value_not_null)
      with Some null False show ?thesis by (simp add: normalize_cell_def Let_def)
    qed
  next
    case notnull: False
    with False show ?thesis by (simp add: normalize_cell_def Let_def)
  qed
qed

lemma normalize_row_map:
  "normalize_row L r = map (\<lambda>(c, v). (rename_column c, normalize_cell L (rename_column c) v)) r"
  by (induction r)
     (simp_all add: normalize_row_def convert_string_fields_def fillna_def
        normalize_column_names_def normalize_cell_def Let_def split_def
        split: option.split)

text \<open>
  Claim C8, as the code has it: normalizing an already normalized record leaves it
  unchanged whenever the normalized record has its DOL id, that is, no cell
  \<open>dol_vehicle_id\<close> of it is null.
\<close>

theorem normalize_idempotent_with_dol_id:
  assumes "(''dol_vehicle_id'', VNone) \<notin> set (normalize_row L r)"
  shows "normalize_row L (normalize_row L r) = normalize_row L r"
proof -
  have "(rename_column (rename_column c),
          normalize_cell L (rename_column (rename_column c))
            (normalize_cell L (rename_column c) v))
        = (rename_column c, normalize_cell L (rename_column c) v)"
    if "(c, v) \<in> set r" for c v
  proof -
    from that have "(rename_column c, normalize_cell L (rename_column c) v)
        \<in> set (normalize_row L r)"
      unfolding normalize_row_map by force
    with assms have "\<not> (rename_column c = ''dol_vehicle_id''
        \<and> normalize_cell L (rename_column c) v = VNone)"
      by metis
    from normalize_cell_idem [OF this] show ?thesis
      by (simp only: rename_column_idem)
  qed
  then show ?thesis
    unfolding normalize_row_map by (auto simp: comp_def)
qed

text \<open>The theorem at the example row: it has its DOL id, and a second normalization
  changes nothing.\<close>

theorem normalize_idempotent_with_dol_id_witness:
  "(''dol_vehicle_id'', VNone) \<notin> set (normalize_row sample_lib raw_row)
   \<and> normalize_row sample_lib (normalize_row sample_lib raw_row)
       = normalize_row sample_lib raw_row"
proof -
  have a: "(''dol_vehicle_id'', VNone) \<notin> set (normalize_row sample_lib raw_row)"
    by code_simp
  from normalize_idempotent_with_dol_id [OF a] a show ?thesis by simp
qed

text \<open>
  Claim C8 as stated fails: for the example row without its DOL id (a NaN cell), the first
  normalization makes the DOL id null, and the second one turns the null into the text
  \<^verbatim>\<open>None\<close>.
\<close>

theorem normalize_idempotent_counterexample:
  "map_of (normalize_row sample_lib raw_row_no_dol) ''dol_vehicle_id'' = Some VNone
   \<and> map_of (normalize_row sample_lib (normalize_row sample_lib raw_row_no_dol))
        ''dol_vehicle_id'' = Some (VStr ''None'')
   \<and> normalize_row sample_lib (normalize_row sample_lib raw_row_no_dol)
       \<noteq> normalize_row sample_lib raw_row_no_dol"
  by code_simp

section \<open>Properties of the query operations\<close>

subsection \<open>The county listing and a model year of 0\<close>

text \<open>
  Claim C9: in the county listing a \<^verbatim>\<open>model_year\<close> of 0 is taken as no filter: for every
  store, county and paging, the answer is the one given without the parameter.
\<close>

theorem county_model_year_zero_is_absent:
  "get_vehicles_by_county db county_name pg pg_size (Some 0) sort_by ord
   = get_vehicles_by_county db county_name pg pg_size None sort_by ord"
proof -
  have "county_query county_name (Some 0) = county_query county_name None"
    by (rule ext) (simp add: county_query_def)
  then show ?thesis by (cases db) (simp_all add: get_vehicles_by_county_def)
qed

text \<open>The theorem at the three documents of the example store, none of model year 0: all
  three are listed.\<close>

theorem county_model_year_zero_is_absent_witness:
  "map_sum id total_count
     (get_vehicles_by_county (Collection sample_store) ''king'' 1 20 None SortModelYear Desc)
     = Inr 3
   \<and> map_sum id total_count
     (get_vehicles_by_county (Collection sample_store) ''king'' 1 20 (Some 0) SortModelYear Desc)
     = Inr 3"
proof -
  have "map_sum id total_count
     (get_vehicles_by_county (Collection sample_store) ''king'' 1 20 None SortModelYear Desc)
     = Inr 3"
    by code_simp
  then show ?thesis
    using county_model_year_zero_is_absent
      [of "Collection sample_store" "''king''" 1 20 SortModelYear Desc]
    by simp
qed

subsection \<open>Not found\<close>

lemma first_seen_empty [simp]: "first_seen xs = [] \<longleftrightarrow> xs = []"
  by (simp add: first_seen_def)

lemma group_docs_empty [simp]: "group_docs key docs = [] \<longleftrightarrow> docs = []"
  by (simp add: group_docs_def)

lemma group_docs_Nil [simp]: "group_docs key [] = []"
  by (simp add: group_docs_def first_seen_def)

lemma sort_key_empty [simp]: "sort_key f xs = [] \<longleftrightarrow> xs = []"
  using length_sort [of f xs] by (metis length_0_conv)

lemma sort_count_desc_empty [simp]: "sort_count_desc gs = [] \<longleftrightarrow> gs = []"
  by (simp add: sort_count_desc_def)

lemma sort_count_desc_Nil [simp]: "sort_count_desc [] = []"
  by (simp add: sort_count_desc_def)

lemma county_not_found:
  assumes "1 \<le> pg" "1 \<le> pg_size" "pg_size \<le> 100"
  shows "get_vehicles_by_county (Collection docs) c pg pg_size yr sb ord = Inl NotFound
           \<longleftrightarrow> filter (county_query c yr) docs = []"
    and "filter (county_query c yr) docs \<noteq> [] \<Longrightarrow>
           \<exists>r. get_vehicles_by_county (Collection docs) c pg pg_size yr sb ord = Inr r"
    and "get_vehicles_by_county Unavailable c pg pg_size yr sb ord = Inl InternalServerError"
  using assms by (simp_all add: get_vehicles_by_county_def Let_def)

lemma make_not_found:
  shows "get_models_by_make (Collection docs) mk = Inl NotFound
           \<longleftrightarrow> filter (\<lambda>d. make_v d = upper mk) docs = []"
    and "filter (\<lambda>d. make_v d = upper mk) docs \<noteq> [] \<Longrightarrow>
           \<exists>r. get_models_by_make (Collection docs) mk = Inr r"
    and "get_models_by_make Unavailable mk = Inl InternalServerError"
proof -
  let ?rs = "sort_count_desc (group_docs model (filter (\<lambda>d. make_v d = upper mk) docs))"
  have e: "?rs = [] \<longleftrightarrow> filter (\<lambda>d. make_v d = upper mk) docs = []" by simp
  show "get_models_by_make (Collection docs) mk = Inl NotFound
           \<longleftrightarrow> filter (\<lambda>d. make_v d = upper mk) docs = []"
    using e by (cases ?rs) (simp_all add: get_models_by_make_def Let_def)
  show "filter (\<lambda>d. make_v d = upper mk) docs \<noteq> [] \<Longrightarrow>
           \<exists>r. get_models_by_make (Collection docs) mk = Inr r"
    using e by (cases ?rs) (simp_all add: get_models_by_make_def Let_def)
  show "get_models_by_make Unavailable mk = Inl InternalServerError"
    by (simp add: get_models_by_make_def)
qed

lemma analyze_not_found:
  assumes "case min_electric_range (filters req) of None \<Rightarrow> True | Some n \<Rightarrow> 0 \<le> n"
  shows "analyze_vehicles (Collection docs) req = Inl NotFound
           \<longleftrightarrow> filter (match_stage (filters req)) docs = []"
    and "filter (match_stage (filters req)) docs \<noteq> [] \<Longrightarrow>
           \<exists>r. analyze_vehicles (Collection docs) req = Inr r"
    and "analyze_vehicles Unavailable req = Inl InternalServerError"
  using assms
  by (auto simp add: analyze_vehicles_def Let_def split: option.splits)

text \<open>
  Claim C5: for parameters within their declared bounds and a store that answers, each
  of the county listing, the models of a make and the analysis fails with \<open>NotFound\<close>
  exactly when no stored document matches its filter, and returns a result otherwise;
  \<open>NotFound\<close> is not the failure given when the store cannot be reached.
\<close>

theorem not_found_exactly_when_no_match:
  assumes "1 \<le> pg" "1 \<le> pg_size" "pg_size \<le> 100"
    and "case min_electric_range (filters req) of None \<Rightarrow> True | Some n \<Rightarrow> 0 \<le> n"
  shows "(get_vehicles_by_county (Collection docs) c pg pg_size yr sb ord = Inl NotFound
            \<longleftrightarrow> filter (county_query c yr) docs = [])
       \<and> (filter (county_query c yr) docs \<noteq> [] \<longrightarrow>
            (\<exists>r. get_vehicles_by_county (Collection docs) c pg pg_size yr sb ord = Inr r))
       \<and> (get_models_by_make (Collection docs) mk = Inl NotFound
            \<longleftrightarrow> filter (\<lambda>d. make_v d = upper mk) docs = [])
       \<and> (filter (\<lambda>d. make_v d = upper mk) docs \<noteq> [] \<longrightarrow>
            (\<exists>r. get_models_by_make (Collection docs) mk = Inr r))
       \<and> (analyze_vehicles (Collection docs) req = Inl NotFound
            \<longleftrightarrow> filter (match_stage (filters req)) docs = [])
       \<and> (filter (match_stage (filters req)) docs \<noteq> [] \<longrightarrow>
            (\<exists>r. analyze_vehicles (Collection docs) req = Inr r))
       \<and> get_vehicles_by_county Unavailable c pg pg_size yr sb ord = Inl InternalServerError
       \<and> get_models_by_make Unavailable mk = Inl InternalServerError
       \<and> analyze_vehicles Unavailable req = Inl InternalServerError
       \<and> NotFound \<noteq> InternalServerError"
  by (simp add: county_not_found [OF assms(1-3)] make_not_found analyze_not_found [OF assms(4)])

text \<open>The theorem at the example store: nothing is registered in PIERCE, TESLA has
  documents, and no document has a range of 100000 or more.\<close>

theorem not_found_exactly_when_no_match_witness:
  "filter (county_query ''pierce'' None) sample_store = []
   \<and> get_vehicles_by_county (Collection sample_store) ''pierce'' 1 20 None SortModelYear Desc
       = Inl NotFound
   \<and> filter (\<lambda>d. make_v d = upper ''tesla'') sample_store \<noteq> []
   \<and> (\<exists>r. get_models_by_make (Collection sample_store) ''tesla'' = Inr r)
   \<and> filter (match_stage (filters \<lparr>filters = no_filters\<lparr>min_electric_range := Some 100000\<rparr>,
                                    group_by = GMake\<rparr>)) sample_store = []
   \<and> analyze_vehicles (Collection sample_store)
        \<lparr>filters = no_filters\<lparr>min_electric_range := Some 100000\<rparr>, group_by = GMake\<rparr>
       = Inl NotFound"
proof -
  let ?req = "\<lparr>filters = no_filters\<lparr>min_electric_range := Some 100000\<rparr>, group_by = GMake\<rparr>"
  have a: "filter (county_query ''pierce'' None) sample_store = []" by code_simp
  have b: "filter (\<lambda>d. make_v d = upper ''tesla'') sample_store \<noteq> []" by code_simp
  have c: "filter (match_stage (filters ?req)) sample_store = []" by code_simp
  have d: "case min_electric_range (filters ?req) of None \<Rightarrow> True | Some n \<Rightarrow> 0 \<le> n"
    by (simp add: no_filters_def)
  have p: "(1::int) \<le> 1" "(1::int) \<le> 20" "(20::int) \<le> 100" by simp_all
  show ?thesis
    using not_found_exactly_when_no_match [OF p d, where docs = sample_store
        and c = "''pierce''" and yr = None and sb = SortModelYear and ord = Desc
        and mk = "''tesla''"] a b c
    by simp
qed

subsection \<open>The rates of the trends\<close>

text \<open>
  Claim C3 at two model years of one vehicle each: the span is one year and the first
  count is 1, so the growth rate is \<open>((1 - 1) / 1 / 1) * 100 = 0\<close>, and the ranges are
  equal, so the improvement rate is 0 as well; both are left out of the answer.
\<close>

theorem trends_zero_rates_omitted:
  "get_trends (Collection [ev ''TESLA'' ''MODEL S'' 2020 100, ev ''TESLA'' ''MODEL 3'' 2021 100])
   = Inr \<lparr>trends =
            [\<lparr>yt_model_year = 2020, vehicle_count = 1, yt_average_electric_range = 100,
              bev_count = 1, phev_count = 0, bev_percentage = 100, phev_percentage = 0\<rparr>,
             \<lparr>yt_model_year = 2021, vehicle_count = 1, yt_average_electric_range = 100,
              bev_count = 1, phev_count = 0, bev_percentage = 100, phev_percentage = 0\<rparr>],
          overall_growth_rate = None,
          range_improvement_rate = None\<rparr>"
  by code_simp

subsection \<open>The most common vehicle of a group\<close>

lemma first_seen_snoc:
  "first_seen (ls @ [k]) = (if k \<in> set ls then first_seen ls else first_seen ls @ [k])"
  by (simp add: first_seen_def)

lemma set_first_seen [simp]: "set (first_seen ls) = set ls"
  by (simp add: first_seen_def)

lemma distinct_first_seen [simp]: "distinct (first_seen ls)"
  by (simp add: first_seen_def)

lemma count_key_map:
  "distinct ks \<Longrightarrow>
   count_key k (map (\<lambda>x. (x, c x)) ks) =
     (if k \<in> set ks then map (\<lambda>x. (x, if x = k then c x + 1 else c x)) ks
      else map (\<lambda>x. (x, c x)) ks @ [(k, 1)])"
  by (induction ks) auto

lemma vehicle_counts_snoc: "vehicle_counts (ls @ [k]) = count_key k (vehicle_counts ls)"
  by (simp add: vehicle_counts_def)

text \<open>The dictionary of the counts: the keys in the order of their first occurrence, each
  with the number of its occurrences.\<close>

lemma vehicle_counts_eq:
  "vehicle_counts ls = map (\<lambda>x. (x, count_list ls x)) (first_seen ls)"
proof (induction ls rule: rev_induct)
  case Nil
  then show ?case by (simp add: vehicle_counts_def first_seen_def)
next
  case (snoc k ls)
  show ?case
  proof (cases "k \<in> set ls")
    case True
    then show ?thesis
      by (simp add: vehicle_counts_snoc snoc.IH count_key_map first_seen_snoc)
  next
    case False
    then have "count_list ls k = 0" by (simp add: count_list_0_iff)
    moreover have "map (\<lambda>x. (x, count_list ls x)) (first_seen ls)
        = map (\<lambda>x. (x, count_list (ls @ [k]) x)) (first_seen ls)"
      using False by (intro map_cong) auto
    ultimately show ?thesis
      using False
      by (simp add: vehicle_counts_snoc snoc.IH count_key_map first_seen_snoc)
  qed
qed

lemma first_seen_split:
  "first_seen ls = p @ k # q \<Longrightarrow>
   \<exists>pre post. ls = pre @ k # post \<and> k \<notin> set pre \<and> set pre = set p"
proof (induction ls arbitrary: q rule: rev_induct)
  case Nil
  then show ?case by (simp add: first_seen_def)
next
  case (snoc a ls)
  show ?case
  proof (cases "a \<in> set ls")
    case True
    with snoc.prems have "first_seen ls = p @ k # q" by (simp add: first_seen_snoc)
    from snoc.IH [OF this] obtain pre post
      where "ls = pre @ k # post" "k \<notin> set pre" "set pre = set p" by blast
    then have "ls @ [a] = pre @ k # (post @ [a])" by simp
    with \<open>k \<notin> set pre\<close> \<open>set pre = set p\<close> show ?thesis by blast
  next
    case False
    with snoc.prems have e: "first_seen ls @ [a] = p @ k # q" by (simp add: first_seen_snoc)
    show ?thesis
    proof (cases q rule: rev_cases)
      case Nil
      with e have "first_seen ls = p" "a = k" by simp_all
      then have "set ls = set p" using set_first_seen [of ls] by simp
      with False \<open>a = k\<close> show ?thesis by blast
    next
      case (snoc q' b)
      with e have "first_seen ls = p @ k # q'" by simp
      from snoc.IH [OF this] obtain pre post
        where "ls = pre @ k # post" "k \<notin> set pre" "set pre = set p" by blast
      then have "ls @ [a] = pre @ k # (post @ [a])" by simp
      with \<open>k \<notin> set pre\<close> \<open>set pre = set p\<close> show ?thesis by blast
    qed
  qed
qed

lemma max_item_snoc:
  "max_item x (xs @ [y]) = (if snd (max_item x xs) < snd y then y else max_item x xs)"
  by (simp add: max_item_def)

text \<open>\<^verbatim>\<open>max\<close> returns the first of the items of the largest count.\<close>

lemma max_item_first:
  "\<exists>pre post. x # xs = pre @ max_item x xs # post
     \<and> (\<forall>y \<in> set pre. snd y < snd (max_item x xs))
     \<and> (\<forall>y \<in> set post. snd y \<le> snd (max_item x xs))"
proof (induction xs rule: rev_induct)
  case Nil
  have "[x] = [] @ max_item x [] # []" by (simp add: max_item_def)
  then show ?case by (metis empty_iff list.set(1))
next
  case (snoc y xs)
  then obtain pre post where d: "x # xs = pre @ max_item x xs # post"
    and lt: "\<forall>z \<in> set pre. snd z < snd (max_item x xs)"
    and le: "\<forall>z \<in> set post. snd z \<le> snd (max_item x xs)" by blast
  show ?case
  proof (cases "snd (max_item x xs) < snd y")
    case True
    then have m: "max_item x (xs @ [y]) = y" by (simp add: max_item_snoc)
    have "\<forall>z \<in> set (x # xs). snd z \<le> snd (max_item x xs)"
      unfolding d using lt le by auto
    with True have "\<forall>z \<in> set (x # xs). snd z < snd y" by auto
    moreover have "x # xs @ [y] = (x # xs) @ y # []" by simp
    ultimately show ?thesis unfolding m by (metis empty_iff list.set(1))
  next
    case False
    then have m: "max_item x (xs @ [y]) = max_item x xs" by (simp add: max_item_snoc)
    have "x # xs @ [y] = pre @ max_item x xs # (post @ [y])" using d by simp
    moreover have "\<forall>z \<in> set (post @ [y]). snd z \<le> snd (max_item x xs)"
      using le False by auto
    ultimately show ?thesis unfolding m using lt by blast
  qed
qed

lemma most_common_first:
  assumes "keys \<noteq> []"
  shows "\<exists>k pre post. most_common keys = Some k \<and> keys = pre @ k # post \<and> k \<notin> set pre
     \<and> (\<forall>l. count_list keys l \<le> count_list keys k)
     \<and> (\<forall>l \<in> set pre. count_list keys l < count_list keys k)"
proof -
  let ?f = "\<lambda>x. (x, count_list keys x)"
  from assms have "first_seen keys \<noteq> []" by (simp add: first_seen_def)
  then obtain x xs where vc: "vehicle_counts keys = x # xs"
    by (cases "vehicle_counts keys") (simp_all add: vehicle_counts_eq)
  from max_item_first [of x xs] obtain P Q where d: "x # xs = P @ max_item x xs # Q"
    and lt: "\<forall>y \<in> set P. snd y < snd (max_item x xs)"
    and le: "\<forall>y \<in> set Q. snd y \<le> snd (max_item x xs)" by blast
  from d vc have "map ?f (first_seen keys) = P @ max_item x xs # Q"
    by (simp add: vehicle_counts_eq)
  then obtain p k q where fs: "first_seen keys = p @ k # q"
    and P: "P = map ?f p" and m: "max_item x xs = ?f k" and Q: "Q = map ?f q"
    by (auto simp: map_eq_append_conv map_eq_Cons_conv)
  from first_seen_split [OF fs] obtain pre post
    where ks: "keys = pre @ k # post" and npre: "k \<notin> set pre" and sp: "set pre = set p"
    by blast
  have mc: "most_common keys = Some k" by (simp add: most_common_def vc m)
  have ltp: "\<forall>l \<in> set p. count_list keys l < count_list keys k"
    using lt P m by simp
  have leq: "\<forall>l \<in> set q. count_list keys l \<le> count_list keys k"
    using le Q m by simp
  have "count_list keys l \<le> count_list keys k" for l
  proof (cases "l \<in> set keys")
    case True
    then have "l \<in> set (first_seen keys)" by simp
    then have "l \<in> set p \<or> l = k \<or> l \<in> set q" unfolding fs by auto
    with ltp leq show ?thesis by (auto simp: less_imp_le)
  next
    case False
    then show ?thesis by (simp add: count_list_0_iff)
  qed
  with mc ks npre ltp sp show ?thesis by blast
qed

lemma group_docs_members:
  "(k, members) \<in> set (sort_count_desc (group_docs key xs)) \<Longrightarrow>
   members = filter (\<lambda>d. key d = k) xs \<and> members \<noteq> []"
  by (auto simp: sort_count_desc_def group_docs_def filter_empty_conv)

text \<open>
  Claim C10, as the code has it: a vehicle is identified by its label, make and model
  joined by a blank. For every group of an answer of the analysis, the reported
  \<open>most_common_vehicle\<close> is a label of the highest frequency among the labels of the
  group's members, and every label collected before its first occurrence is strictly
  less frequent: of the labels that tie for the highest frequency it is the first in the
  order the members were collected. The answer is a function of the stored documents in
  their order.
\<close>

theorem analyze_most_common_label:
  assumes "analyze_vehicles (Collection docs) req = Inr r" and "g \<in> set (groups r)"
  shows "\<exists>k label pre post.
      group_value g = str_of_id k
      \<and> most_common_vehicle g = Some label
      \<and> map vehicle_label
           (filter (\<lambda>d. group_key (group_by req) d = k)
              (filter (match_stage (filters req)) docs)) = pre @ label # post
      \<and> label \<notin> set pre
      \<and> (\<forall>l. count_list (pre @ label # post) l \<le> count_list (pre @ label # post) label)
      \<and> (\<forall>l \<in> set pre. count_list (pre @ label # post) l < count_list (pre @ label # post) label)"
proof -
  let ?matching = "filter (match_stage (filters req)) docs"
  let ?results = "sort_count_desc (group_docs (group_key (group_by req)) ?matching)"
  from assms(1) have gr: "groups r =
      map (\<lambda>(k, members).
             \<lparr>group_value = str_of_id k,
              gs_count = length members,
              gs_average_electric_range = py_round2 (avg (map electric_range members)),
              most_common_vehicle = most_common (map vehicle_label members)\<rparr>) ?results"
    by (auto simp: analyze_vehicles_def Let_def split: if_splits)
  with assms(2) obtain k members where km: "(k, members) \<in> set ?results"
    and gv: "group_value g = str_of_id k"
    and mc: "most_common_vehicle g = most_common (map vehicle_label members)"
    by auto
  have mem: "members = filter (\<lambda>d. group_key (group_by req) d = k) ?matching"
    using group_docs_members [OF km] by (rule conjunct1)
  have ne: "members \<noteq> []"
    using group_docs_members [OF km] by (rule conjunct2)
  from ne have "map vehicle_label members \<noteq> []" by simp
  from most_common_first [OF this] obtain label pre post
    where "most_common (map vehicle_label members) = Some label"
      and "map vehicle_label members = pre @ label # post" and "label \<notin> set pre"
      and "\<forall>l. count_list (map vehicle_label members) l
               \<le> count_list (map vehicle_label members) label"
      and "\<forall>l \<in> set pre. count_list (map vehicle_label members) l
               < count_list (map vehicle_label members) label"
    by blast
  with gv mc mem show ?thesis by metis
qed

text \<open>The theorem at four documents of one county, two labels of two members each: the
  label collected first is reported.\<close>

theorem analyze_most_common_label_witness:
  "analyze_vehicles (Collection tie_store) by_county =
     Inr \<lparr>ar_group_by = ''county'', total_matching_vehicles = 4,
          groups = [\<lparr>group_value = ''KING'', gs_count = 4, gs_average_electric_range = 254,
                     most_common_vehicle = Some ''TESLA MODEL 3''\<rparr>]\<rparr>
   \<and> (\<exists>k label pre post.
        ''KING'' = str_of_id k
        \<and> Some ''TESLA MODEL 3'' = Some label
        \<and> map vehicle_label
             (filter (\<lambda>d. group_key (group_by by_county) d = k)
                (filter (match_stage (filters by_county)) tie_store)) = pre @ label # post
        \<and> label \<notin> set pre
        \<and> (\<forall>l. count_list (pre @ label # post) l \<le> count_list (pre @ label # post) label)
        \<and> (\<forall>l \<in> set pre. count_list (pre @ label # post) l
                              < count_list (pre @ label # post) label))"
proof -
  let ?g = "\<lparr>group_value = ''KING'', gs_count = 4, gs_average_electric_range = 254,
             most_common_vehicle = Some ''TESLA MODEL 3''\<rparr>"
  let ?r = "\<lparr>ar_group_by = ''county'', total_matching_vehicles = 4, groups = [?g]\<rparr>"
  have a: "analyze_vehicles (Collection tie_store) by_county = Inr ?r" by code_simp
  have b: "?g \<in> set (groups ?r)" by simp
  from analyze_most_common_label [OF a b] a show ?thesis by simp
qed

text \<open>
  Claim C10 as stated, for pairs of make and model, fails: in this group three pairs tie
  for the highest frequency 2, and the first of them in the order of the members has the
  label \<^verbatim>\<open>TESLA MODEL 3\<close>; the pairs (MERCEDES, BENZ EQS) and (MERCEDES BENZ, EQS) share
  one label, which is counted three times and reported.
\<close>

theorem analyze_most_common_pair_counterexample:
  "map (count_list (map (\<lambda>d. (make_v d, model d)) collision_store))
       (map (\<lambda>d. (make_v d, model d)) collision_store) = [2, 2, 2, 2, 2, 1, 2]
   \<and> map vehicle_label collision_store =
       [''TESLA MODEL 3'', ''TESLA MODEL 3'', ''NISSAN LEAF'', ''NISSAN LEAF'',
        ''MERCEDES BENZ EQS'', ''MERCEDES BENZ EQS'', ''MERCEDES BENZ EQS'']
   \<and> map_sum id (map most_common_vehicle \<circ> groups)
        (analyze_vehicles (Collection collision_store) by_county)
       = Inr [Some ''MERCEDES BENZ EQS'']"
  by code_simp

subsection \<open>Rounding\<close>





subsection \<open>The averages and percentages of the answers\<close>




lemma round_if_true_Some: "round_if_true y = Some x \<Longrightarrow> \<exists>z. y = Some z \<and> x = py_round2 z"
  by (auto simp: round_if_true_def split: option.splits if_splits)








end
